theory Spec2Isabelle
  imports Main "HOL-Library.Sublist" "HOL-Library.Char_ord" "HOL-Library.List_Lexorder"
    "HOL-Library.Multiset"
begin

section \<open>Text helpers of the Python runtime\<close>

text \<open>
  Python's \<^verbatim>\<open>str\<close> is modelled as \<^typ>\<open>string\<close>, every character read as a code point
  below 256. \<^verbatim>\<open>str.strip()\<close> without argument removes leading and trailing white space;
  below 256 the white-space code points are 9 to 13, 28 to 32, 133 and 160.
\<close>

definition isspace :: "char \<Rightarrow> bool" where
  "isspace c = (c \<in> set [CHR 0x09, CHR 0x0A, CHR 0x0B, CHR 0x0C, CHR 0x0D,
                           CHR 0x1C, CHR 0x1D, CHR 0x1E, CHR 0x1F, CHR 0x20,
                           CHR 0x85, CHR 0xA0])"

definition strip :: "string \<Rightarrow> string" where
  "strip s = rev (dropWhile isspace (rev (dropWhile isspace s)))"

text \<open>\<^verbatim>\<open>sep.join(parts)\<close>.\<close>

fun join :: "string \<Rightarrow> string list \<Rightarrow> string" where
  "join sep [] = []"
| "join sep [x] = x"
| "join sep (x # y # ys) = x @ sep @ join sep (y # ys)"

text \<open>
  \<^verbatim>\<open>xs[start:stop]\<close> with Python's rules: an absent bound is the end of the list on its
  side, a negative bound counts from the end, and every bound is clamped into the list.
\<close>

definition py_slice :: "int option \<Rightarrow> int option \<Rightarrow> 'a list \<Rightarrow> 'a list" where
  "py_slice start stop xs =
     (let n = int (length xs);
          lo = (case start of None \<Rightarrow> 0
                | Some i \<Rightarrow> if i < 0 then max (i + n) 0 else min i n);
          hi = (case stop of None \<Rightarrow> n
                | Some j \<Rightarrow> if j < 0 then max (j + n) 0 else min j n)
      in take (nat (hi - lo)) (drop (nat lo) xs))"

text \<open>\<^verbatim>\<open>str(n)\<close> for an integer: decimal digits, a minus sign when negative.\<close>

definition digito :: "nat \<Rightarrow> char" where
  "digito d = ''0123456789'' ! d"

fun str_nat :: "nat \<Rightarrow> string" where
  "str_nat n = (if n < 10 then [digito n] else str_nat (n div 10) @ [digito (n mod 10)])"

declare str_nat.simps [simp del]

definition str_int :: "int \<Rightarrow> string" where
  "str_int i = (if i < 0 then CHR ''-'' # str_nat (nat (- i)) else str_nat (nat i))"

section \<open>The parsed page and the saint record\<close>

text \<open>
  The handlers read four things from a document parsed by BeautifulSoup; a \<open>soup\<close> holds
  exactly these. \<^verbatim>\<open>find\<close> returns \<^verbatim>\<open>None\<close> when no element matches, \<^verbatim>\<open>find_all\<close>
  returns the matches in document order.
  \<^item> \<open>feature__name\<close>: the text of the first \<^verbatim>\<open>div.feature__name\<close>;
  \<^item> \<open>wg_text\<close>: the texts of the \<^verbatim>\<open>p\<close> elements inside the first \<^verbatim>\<open>div.wg-text\<close>;
  \<^item> \<open>feature\<close>: for the first \<^verbatim>\<open>div.feature\<close>, its first descendant of class
    \<^verbatim>\<open>feature__portrait\<close>, if any, with that element's \<^verbatim>\<open>src\<close> attribute, if any;
  \<^item> \<open>saints_list\<close>: the \<^verbatim>\<open>href\<close> values of the \<^verbatim>\<open>a\<close> elements that have one, inside
    the first \<^verbatim>\<open>div.saints-list\<close>.
\<close>

datatype elemento = Elemento (src: "string option")

record soup =
  feature__name :: "string option"
  wg_text :: "string list option"
  feature :: "elemento option option"
  saints_list :: "string list option"

record santo =
  nome :: string
  imagem :: "string option"
  historia :: string
  reflexao :: string
  oracao :: string

text \<open>
  One section of the record:
  \<^verbatim>\<open>"\n\n".join(p.text.strip() for p in bloco if p.text.strip())\<close>.
\<close>

definition secao :: "string list \<Rightarrow> string" where
  "secao bloco = join [CHR 0x0A, CHR 0x0A] (map strip (filter (\<lambda>p. strip p \<noteq> []) bloco))"

text \<open>
  \<^verbatim>\<open>extrair_info_santo(soup)\<close>. Every exception of the body is caught and turned into
  \<^verbatim>\<open>None\<close>: the \<^verbatim>\<open>AttributeError\<close> of \<^verbatim>\<open>None.text\<close> and \<^verbatim>\<open>None.find_all\<close>/\<^verbatim>\<open>None.find\<close>, and
  the \<^verbatim>\<open>KeyError\<close> of a portrait element without \<^verbatim>\<open>src\<close>. A found element is truthy.
\<close>

definition extrair_info_santo :: "soup \<Rightarrow> santo option" where
  "extrair_info_santo sp =
     (case feature__name sp of
        None \<Rightarrow> None
      | Some texto_nome \<Rightarrow>
     (case wg_text sp of
        None \<Rightarrow> None
      | Some infos_santo \<Rightarrow>
     (case feature sp of
        None \<Rightarrow> None
      | Some elemento_imagem \<Rightarrow>
     (case (case elemento_imagem of
              None \<Rightarrow> Some None
            | Some el \<Rightarrow> (case src el of
                           None \<Rightarrow> None
                         | Some s \<Rightarrow> Some (Some (''https://www.a12.com'' @ s)))) of
        None \<Rightarrow> None
      | Some img \<Rightarrow>
          Some \<lparr> nome = strip texto_nome,
                 imagem = img,
                 historia = secao (py_slice None (Some (- 4)) infos_santo),
                 reflexao = secao (py_slice (Some (- 3)) (Some (- 2)) infos_santo),
                 oracao = secao (py_slice (Some (- 1)) None infos_santo) \<rparr>))))"

text \<open>
  The elements whose absence makes the extraction fail: the name, the paragraph
  container, the feature block, and the \<^verbatim>\<open>src\<close> of the portrait when there is a portrait.
\<close>

definition elementos_presentes :: "soup \<Rightarrow> bool" where
  "elementos_presentes sp =
     (feature__name sp \<noteq> None \<and> wg_text sp \<noteq> None \<and>
      (case feature sp of
         None \<Rightarrow> False
       | Some None \<Rightarrow> True
       | Some (Some el) \<Rightarrow> src el \<noteq> None))"

section \<open>Cache keys\<close>

text \<open>
  The positional arguments given to \<^verbatim>\<open>criar_chave_cache\<close> are strings and integers;
  \<open>str\<close> is Python's \<^verbatim>\<open>str(arg)\<close> on them.
\<close>

datatype pyval = PStr string | PInt int

fun str :: "pyval \<Rightarrow> string" where
  "str (PStr s) = s"
| "str (PInt i) = str_int i"

record date =
  year :: nat
  month :: nat
  day :: nat

definition zfill :: "nat \<Rightarrow> string \<Rightarrow> string" where
  "zfill w s = replicate (w - length s) CHR ''0'' @ s"

text \<open>\<^verbatim>\<open>strftime("%Y-%m-%d")\<close>: the year on four digits, month and day on two.\<close>

definition strftime :: "date \<Rightarrow> string" where
  "strftime d = zfill 4 (str_nat (year d)) @ ''-'' @ zfill 2 (str_nat (month d)) @ ''-''
                @ zfill 2 (str_nat (day d))"

text \<open>
  The string that is hashed: the positional arguments, then \<^verbatim>\<open>k:v\<close> for the keyword
  arguments sorted by name (a \<^verbatim>\<open>dict\<close> has no two items of one name), then the date,
  joined with an underscore.
\<close>

definition string_chave :: "pyval list \<Rightarrow> (string \<times> pyval) list \<Rightarrow> date \<Rightarrow> string" where
  "string_chave args kwargs d =
     join ''_'' (map str args
                 @ map (\<lambda>(k, v). k @ '':'' @ str v) (sort_key fst kwargs)
                 @ [strftime d])"


section \<open>The environment and the state of the process\<close>

text \<open>
  What the process reads from outside during one request or one run of the daily job:
  \<^item> \<open>sessao_get\<close>: \<^verbatim>\<open>sessao.get(url, timeout=10)\<close> followed by \<^verbatim>\<open>raise_for_status()\<close> and
    \<^verbatim>\<open>.text\<close>, either a \<^verbatim>\<open>requests.RequestException\<close> or the body;
  \<^item> \<open>BeautifulSoup\<close>: the parser, from a body to what the handlers read of the document;
  \<^item> \<open>md5_hexdigest\<close>: \<^verbatim>\<open>hashlib.md5(s.encode()).hexdigest()\<close>;
  \<^item> \<open>datetime_now\<close>: the calendar date of \<^verbatim>\<open>datetime.now()\<close>;
  \<^item> \<open>time_now\<close>: the clock the cache compares expiry times with, in seconds.
  A request exception carries its message, which \<^verbatim>\<open>str(e)\<close> returns.
\<close>

datatype request_exception =
    Timeout string
  | ConnectionError string
  | HTTPError string
  | OtherRequestException string

fun str_exc :: "request_exception \<Rightarrow> string" where
  "str_exc (Timeout m) = m"
| "str_exc (ConnectionError m) = m"
| "str_exc (HTTPError m) = m"
| "str_exc (OtherRequestException m) = m"

record 'h ambiente =
  sessao_get :: "string \<Rightarrow> request_exception + 'h"
  BeautifulSoup :: "'h \<Rightarrow> soup"
  md5_hexdigest :: "string \<Rightarrow> string"
  datetime_now :: date
  time_now :: nat

text \<open>
  Modelled from the spec: CacheStore, the cache that \<^verbatim>\<open>flask_caching\<close> provides. An entry
  holds a value, the time it was stored and its time to live; it is stale once the time
  to live has elapsed; a lookup of a missing or stale entry is a miss; nothing else
  evicts. The configured default time to live is 86400 seconds. A stored value is a list
  of records, where \<^verbatim>\<open>None\<close> can stand for a record.
\<close>

record entrada =
  valor :: "santo option list"
  guardado_em :: nat
  ttl :: nat

type_synonym cache_store = "string \<rightharpoonup> entrada"

definition cache_get :: "nat \<Rightarrow> cache_store \<Rightarrow> string \<Rightarrow> santo option list option" where
  "cache_get agora c k =
     (case c k of
        None \<Rightarrow> None
      | Some e \<Rightarrow> if agora < guardado_em e + ttl e then Some (valor e) else None)"

definition cache_set :: "nat \<Rightarrow> cache_store \<Rightarrow> string \<Rightarrow> santo option list \<Rightarrow> cache_store" where
  "cache_set agora c k v = c(k \<mapsto> \<lparr> valor = v, guardado_em = agora, ttl = 86400 \<rparr>)"

definition cache_clear :: "cache_store \<Rightarrow> cache_store" where
  "cache_clear c = Map.empty"

text \<open>
  The state: the cache, the memo table of \<^verbatim>\<open>lru_cache(maxsize=128)\<close> around
  \<^verbatim>\<open>buscar_url\<close> (most recently used first), and two traces that record, in order, the
  URLs \<^verbatim>\<open>buscar_url\<close> was called with and the URLs requested upstream.
\<close>

record 'h estado =
  cache :: cache_store
  memo :: "(string \<times> 'h) list"
  chamadas :: "string list"
  pedidos :: "string list"

definition criar_chave_cache ::
    "'h ambiente \<Rightarrow> pyval list \<Rightarrow> (string \<times> pyval) list \<Rightarrow> string" where
  "criar_chave_cache amb args kwargs =
     md5_hexdigest amb (string_chave args kwargs (datetime_now amb))"

text \<open>
  \<^verbatim>\<open>buscar_url(url)\<close> under \<^verbatim>\<open>lru_cache\<close>: a memoised body is returned without a request
  and becomes the most recently used; otherwise the request is made, an exception is
  logged and raised again and leaves the table as it was, a body is stored and the least
  recently used entry beyond 128 is dropped.
\<close>

definition buscar_url ::
    "'h ambiente \<Rightarrow> 'h estado \<Rightarrow> string \<Rightarrow> (request_exception + 'h) \<times> 'h estado" where
  "buscar_url amb st url =
     (let st1 = st\<lparr>chamadas := chamadas st @ [url]\<rparr> in
      case map_of (memo st1) url of
        Some corpo_html \<Rightarrow>
          (Inr corpo_html,
           st1\<lparr>memo := (url, corpo_html) # filter (\<lambda>(u, _). u \<noteq> url) (memo st1)\<rparr>)
      | None \<Rightarrow>
          (let st2 = st1\<lparr>pedidos := pedidos st1 @ [url]\<rparr> in
           case sessao_get amb url of
             Inl e \<Rightarrow> (Inl e, st2)
           | Inr corpo_html \<Rightarrow>
               (Inr corpo_html, st2\<lparr>memo := take 128 ((url, corpo_html) # memo st2)\<rparr>)))"

text \<open>\<^verbatim>\<open>buscar_dados_santo(url)\<close>: any exception gives \<^verbatim>\<open>None\<close>.\<close>

definition buscar_dados_santo ::
    "'h ambiente \<Rightarrow> 'h estado \<Rightarrow> string \<Rightarrow> santo option \<times> 'h estado" where
  "buscar_dados_santo amb st url =
     (case buscar_url amb st url of
        (Inl e, st1) \<Rightarrow> (None, st1)
      | (Inr html, st1) \<Rightarrow> (extrair_info_santo (BeautifulSoup amb html), st1))"

text \<open>
  \<^verbatim>\<open>executor.map(buscar_dados_santo, urls)\<close> yields the results in the order of \<open>urls\<close>.
  The interleaving of the five workers is not modelled: the children are run one after
  the other, in that order.
\<close>

fun executor_map ::
    "'h ambiente \<Rightarrow> 'h estado \<Rightarrow> string list \<Rightarrow> santo option list \<times> 'h estado" where
  "executor_map amb st [] = ([], st)"
| "executor_map amb st (url # urls) =
     (case buscar_dados_santo amb st url of
        (r, st1) \<Rightarrow> (case executor_map amb st1 urls of
                       (rs, st2) \<Rightarrow> (r # rs, st2)))"

text \<open>\<^verbatim>\<open>list(filter(None, resultados))\<close>: a record is truthy, \<^verbatim>\<open>None\<close> is not.\<close>

definition filter_None :: "santo option list \<Rightarrow> santo option list" where
  "filter_None rs = filter (\<lambda>r. r \<noteq> None) rs"

section \<open>Responses and routes\<close>

datatype corpo = Resultados "santo option list" | Erro string | Mensagem string

record resposta =
  corpo :: corpo
  status :: nat
  cache_control_public :: bool
  headers :: "string \<rightharpoonup> string"

text \<open>
  \<^verbatim>\<open>jsonify(...)\<close> builds a response of status 200 that carries no \<^verbatim>\<open>Cache-Control\<close>
  header, so that its \<^verbatim>\<open>cache_control.public\<close> is false.
\<close>

definition jsonify :: "corpo \<Rightarrow> resposta" where
  "jsonify c = \<lparr> corpo = c, status = 200, cache_control_public = False,
                  headers = [''Content-Type'' \<mapsto> ''application/json''] \<rparr>"

text \<open>\<^verbatim>\<open>except Exception as e: return jsonify(erro=str(e)), 500\<close>.\<close>

definition erro_500 :: "request_exception \<Rightarrow> resposta" where
  "erro_500 e = (jsonify (Erro (str_exc e)))\<lparr>status := 500\<rparr>"

definition apos_requisicao :: "resposta \<Rightarrow> resposta" where
  "apos_requisicao r =
     r\<lparr>headers := (headers r)(''X-Status-Cache'' \<mapsto>
                       (if cache_control_public r then ''HIT'' else ''MISS''))\<rparr>"

definition url_santo_do_dia :: string where
  "url_santo_do_dia = ''https://www.a12.com/reze-no-santuario/santo-do-dia''"

definition url_data :: "nat \<Rightarrow> nat \<Rightarrow> string" where
  "url_data dia mes =
     url_santo_do_dia @ ''?day='' @ str_int (int dia) @ ''&month='' @ str_int (int mes)"

text \<open>\<^verbatim>\<open>if dados_cache:\<close> on what \<^verbatim>\<open>cache.get\<close> returned: a non-empty list is truthy.\<close>

fun verdadeiro :: "'a list option \<Rightarrow> bool" where
  "verdadeiro None = False"
| "verdadeiro (Some []) = False"
| "verdadeiro (Some (x # xs)) = True"

text \<open>The \<^verbatim>\<open>try\<close> block of \<^verbatim>\<open>inicio\<close>; \<open>Inl\<close> is the exception that leaves it.\<close>

definition inicio_try ::
    "'h ambiente \<Rightarrow> 'h estado \<Rightarrow> string \<Rightarrow> (request_exception + resposta) \<times> 'h estado" where
  "inicio_try amb st chave_cache =
     (case buscar_url amb st url_santo_do_dia of
        (Inl e, st1) \<Rightarrow> (Inl e, st1)
      | (Inr html, st1) \<Rightarrow>
          (let sp = BeautifulSoup amb html;
               lista_santos = saints_list sp;
               urls = (case lista_santos of None \<Rightarrow> [] | Some hrefs \<Rightarrow> hrefs)
           in case executor_map amb st1 urls of
                (rs, st2) \<Rightarrow>
                  (let santos = filter_None rs;
                       santos = (if santos = [] \<and> lista_santos = None
                                 then [extrair_info_santo sp] else santos)
                   in (Inr (jsonify (Resultados santos)),
                       st2\<lparr>cache := cache_set (time_now amb) (cache st2) chave_cache santos\<rparr>))))"

definition inicio :: "'h ambiente \<Rightarrow> 'h estado \<Rightarrow> resposta \<times> 'h estado" where
  "inicio amb st =
     (let chave_cache = criar_chave_cache amb [PStr ''inicio''] [];
          dados_cache = cache_get (time_now amb) (cache st) chave_cache
      in if verdadeiro dados_cache then (jsonify (Resultados (the dados_cache)), st)
         else case inicio_try amb st chave_cache of
                (Inl e, st1) \<Rightarrow> (erro_500 e, st1)
              | (Inr r, st1) \<Rightarrow> (r, st1))"

text \<open>
  The \<^verbatim>\<open>try\<close> block of \<^verbatim>\<open>data\<close>. The route's converter \<^verbatim>\<open>int\<close> accepts unsigned decimal
  numbers only.
\<close>

definition data_try ::
    "'h ambiente \<Rightarrow> 'h estado \<Rightarrow> nat \<Rightarrow> nat \<Rightarrow> string
       \<Rightarrow> (request_exception + resposta) \<times> 'h estado" where
  "data_try amb st dia mes chave_cache =
     (case buscar_url amb st (url_data dia mes) of
        (Inl e, st1) \<Rightarrow> (Inl e, st1)
      | (Inr html, st1) \<Rightarrow>
          (let sp = BeautifulSoup amb html in
           case (case saints_list sp of
                   Some urls \<Rightarrow>
                     (case executor_map amb st1 urls of (rs, st2) \<Rightarrow> (filter_None rs, st2))
                 | None \<Rightarrow>
                     (case extrair_info_santo sp of
                        Some info_santo \<Rightarrow> ([Some info_santo], st1)
                      | None \<Rightarrow> ([], st1))) of
             (santos, st2) \<Rightarrow>
               (Inr (jsonify (Resultados santos)),
                st2\<lparr>cache := cache_set (time_now amb) (cache st2) chave_cache santos\<rparr>)))"

definition data :: "'h ambiente \<Rightarrow> 'h estado \<Rightarrow> nat \<Rightarrow> nat \<Rightarrow> resposta \<times> 'h estado" where
  "data amb st dia mes =
     (let chave_cache = criar_chave_cache amb [PStr ''data'', PInt (int dia), PInt (int mes)] [];
          dados_cache = cache_get (time_now amb) (cache st) chave_cache
      in if verdadeiro dados_cache then (jsonify (Resultados (the dados_cache)), st)
         else case data_try amb st dia mes chave_cache of
                (Inl e, st1) \<Rightarrow> (erro_500 e, st1)
              | (Inr r, st1) \<Rightarrow> (r, st1))"

text \<open>\<^verbatim>\<open>limpar_cache\<close>, the route that clears both caches.\<close>

definition limpar_cache :: "'h estado \<Rightarrow> resposta \<times> 'h estado" where
  "limpar_cache st =
     (jsonify (Mensagem ''Todos os caches foram limpos com sucesso''),
      st\<lparr>cache := cache_clear (cache st), memo := []\<rparr>)"

text \<open>
  A request: the view, then the \<^verbatim>\<open>after_request\<close> hook on its response. The
  \<^verbatim>\<open>before_request\<close> hook only writes to the log, as do the \<^verbatim>\<open>logger\<close> calls
  everywhere; the log is not part of the state.
\<close>

definition servir :: "('h estado \<Rightarrow> resposta \<times> 'h estado) \<Rightarrow> 'h estado \<Rightarrow> resposta \<times> 'h estado" where
  "servir rota st = (case rota st of (r, st1) \<Rightarrow> (apos_requisicao r, st1))"

section \<open>The daily job\<close>

text \<open>\<^verbatim>\<open>agulha in palheiro\<close> on strings.\<close>

fun contem :: "string \<Rightarrow> string \<Rightarrow> bool" where
  "contem agulha [] = (agulha = [])"
| "contem agulha (c # cs) = (prefix agulha (c # cs) \<or> contem agulha cs)"

datatype excecao = Pedido request_exception | UnboundLocalError

text \<open>
  The inner \<^verbatim>\<open>try\<close> block of the loop, for one URL. The local \<^verbatim>\<open>santos\<close> is carried from
  one iteration to the next: \<open>None\<close> while it is unbound, when reading it raises
  \<^verbatim>\<open>UnboundLocalError\<close>. The first component is the exception that leaves the block.
\<close>

definition pre_carregar ::
    "'h ambiente \<Rightarrow> string \<Rightarrow> 'h estado \<times> santo option list option
       \<Rightarrow> excecao option \<times> 'h estado \<times> santo option list option" where
  "pre_carregar amb url s =
     (case s of (st, santos) \<Rightarrow>
      (case buscar_url amb st url of
         (Inl e, st1) \<Rightarrow> (Some (Pedido e), st1, santos)
       | (Inr html, st1) \<Rightarrow>
           (let sp = BeautifulSoup amb html;
                hoje = datetime_now amb
            in case (case saints_list sp of
                       Some urls_santos \<Rightarrow>
                         (case executor_map amb st1 urls_santos of
                            (rs, st2) \<Rightarrow> (st2, Some (filter_None rs)))
                     | None \<Rightarrow>
                         (case extrair_info_santo sp of
                            Some info_santo \<Rightarrow> (st1, Some [Some info_santo])
                          | None \<Rightarrow> (st1, santos))) of
                 (st2, santos2) \<Rightarrow>
                   (let chave_cache = criar_chave_cache amb
                          [PStr (if \<not> contem ''day'' url then ''inicio''
                                 else ''data_'' @ str_int (int (day hoje)) @ ''_''
                                      @ str_int (int (month hoje)))] []
                    in case santos2 of
                         None \<Rightarrow> (Some UnboundLocalError, st2, santos2)
                       | Some v \<Rightarrow>
                           (None,
                            st2\<lparr>cache := cache_set (time_now amb) (cache st2) chave_cache v\<rparr>,
                            santos2)))))"

text \<open>The \<^verbatim>\<open>for\<close> loop: the handler of the inner block logs the exception and goes on.\<close>

fun pre_carregar_todos ::
    "'h ambiente \<Rightarrow> string list \<Rightarrow> 'h estado \<times> santo option list option
       \<Rightarrow> 'h estado \<times> santo option list option" where
  "pre_carregar_todos amb [] s = s"
| "pre_carregar_todos amb (url # urls) s =
     (case pre_carregar amb url s of
        (exc, st1, santos1) \<Rightarrow> pre_carregar_todos amb urls (st1, santos1))"

text \<open>
  \<^verbatim>\<open>limpar_e_atualizar_cache()\<close>. The first component is the exception that escapes the
  function, if any.
\<close>

definition limpar_e_atualizar_cache :: "'h ambiente \<Rightarrow> 'h estado \<Rightarrow> excecao option \<times> 'h estado" where
  "limpar_e_atualizar_cache amb st =
     (let st1 = st\<lparr>cache := cache_clear (cache st), memo := []\<rparr>;
          hoje = datetime_now amb;
          urls = [url_santo_do_dia, url_data (day hoje) (month hoje)]
      in case pre_carregar_todos amb urls (st1, None) of
           (st2, santos) \<Rightarrow> (None, st2))"

section \<open>Notions used to state the properties\<close>

text \<open>
  The memo table agrees with the network: every memoised body is the body a request for
  its URL would return now. This holds of the empty table, hence after every clearing.
\<close>

definition memo_coerente :: "'h ambiente \<Rightarrow> 'h estado \<Rightarrow> bool" where
  "memo_coerente amb st = (\<forall>(u, b) \<in> set (memo st). sessao_get amb u = Inr b)"

text \<open>
  What a child link yields when its page is requested: no record when the request fails
  or the extraction fails.
\<close>

definition santo_de :: "'h ambiente \<Rightarrow> string \<Rightarrow> santo option" where
  "santo_de amb url =
     (case sessao_get amb url of
        Inl e \<Rightarrow> None
      | Inr html \<Rightarrow> extrair_info_santo (BeautifulSoup amb html))"

section \<open>A concrete site\<close>

text \<open>
  An example: the page of the day lists three saints, each child page has six
  paragraphs; the page of 22 May lists three links of which the second answers 404;
  the page of 1 January is a single page that lacks the name element. Bodies are
  identified with their parsed documents, and the digest is replaced by the identity.
\<close>

definition pagina_filho :: soup where
  "pagina_filho =
     \<lparr> feature__name = Some '' Santa Rita '',
       wg_text = Some [''p1'', ''p2 '', ''p3'', ''p4'', ''p5'', ''p6''],
       feature = Some (Some (Elemento (Some ''/rita.jpg''))),
       saints_list = None \<rparr>"

definition pagina_indice :: "string list \<Rightarrow> soup" where
  "pagina_indice hrefs =
     \<lparr> feature__name = None, wg_text = None, feature = None, saints_list = Some hrefs \<rparr>"

definition pagina_sem_nome :: soup where
  "pagina_sem_nome =
     \<lparr> feature__name = None, wg_text = Some [''p1''], feature = Some None,
       saints_list = None \<rparr>"

definition rede_exemplo :: "string \<Rightarrow> request_exception + soup" where
  "rede_exemplo u =
     (if u = url_santo_do_dia then Inr (pagina_indice [''https://www.a12.com/a'', ''https://www.a12.com/b'', ''https://www.a12.com/c''])
      else if u = url_data 22 5 then Inr (pagina_indice [''https://www.a12.com/a'', ''https://www.a12.com/x'', ''https://www.a12.com/c''])
      else if u = url_data 1 1 then Inr pagina_sem_nome
      else if u \<in> set [''https://www.a12.com/a'', ''https://www.a12.com/b'', ''https://www.a12.com/c''] then Inr pagina_filho
      else Inl (HTTPError ''404 Client Error''))"

definition amb_exemplo :: "soup ambiente" where
  "amb_exemplo =
     \<lparr> sessao_get = rede_exemplo,
       BeautifulSoup = (\<lambda>html. html),
       md5_hexdigest = (\<lambda>s. s),
       datetime_now = \<lparr> year = 2024, month = 5, day = 22 \<rparr>,
       time_now = 1000 \<rparr>"

definition estado_inicial :: "soup estado" where
  "estado_inicial = \<lparr> cache = Map.empty, memo = [], chamadas = [], pedidos = [] \<rparr>"

text \<open>
  A state whose cache holds \<open>v\<close>, stored at time 900, under today's key of the default
  route and under today's key of the route for 22 May.
\<close>

definition estado_com_cache :: "santo option list \<Rightarrow> soup estado" where
  "estado_com_cache v =
     estado_inicial\<lparr>cache :=
       [criar_chave_cache amb_exemplo [PStr ''inicio''] []
          \<mapsto> \<lparr> valor = v, guardado_em = 900, ttl = 86400 \<rparr>,
        criar_chave_cache amb_exemplo [PStr ''data'', PInt 22, PInt 5] []
          \<mapsto> \<lparr> valor = v, guardado_em = 900, ttl = 86400 \<rparr>]\<rparr>"

definition santa_rita :: santo where
  "santa_rita =
     \<lparr> nome = ''Santa Rita'', imagem = Some ''https://www.a12.com/rita.jpg'',
       historia = ''p1'' @ [CHR 0x0A, CHR 0x0A] @ ''p2'', reflexao = ''p4'', oracao = ''p6'' \<rparr>"

section \<open>Slices, joins and sections\<close>

lemma py_slice_historia: "py_slice None (Some (- 4)) xs = take (length xs - 4) xs"
  by (simp add: py_slice_def Let_def max_def nat_diff_distrib')

lemma take1_drop: "n < length xs \<Longrightarrow> take (Suc 0) (drop n xs) = [xs ! n]"
  by (simp add: take_Suc_conv_app_nth)

lemma py_slice_reflexao:
  "py_slice (Some (- 3)) (Some (- 2)) xs =
     (if 3 \<le> length xs then [xs ! (length xs - 3)] else [])"
proof (cases "3 \<le> length xs")
  case True
  then have n: "nat (int (length xs) - 3) = length xs - 3" by simp
  from True have "py_slice (Some (- 3)) (Some (- 2)) xs = take (Suc 0) (drop (length xs - 3) xs)"
    by (simp add: py_slice_def Let_def max_def n)
  with True show ?thesis by (simp add: take1_drop)
next
  case False
  then show ?thesis by (auto simp add: py_slice_def Let_def max_def)
qed

lemma py_slice_oracao: "py_slice (Some (- 1)) None xs = (if xs = [] then [] else [last xs])"
proof (cases xs rule: rev_cases)
  case Nil
  then show ?thesis by (simp add: py_slice_def)
next
  case (snoc ys y)
  then show ?thesis by (simp add: py_slice_def Let_def max_def)
qed

lemma join_Nil_iff: "\<forall>x\<in>set xs. x \<noteq> [] \<Longrightarrow> join sep xs = [] \<longleftrightarrow> xs = []"
  by (induction sep xs rule: join.induct) auto

lemma secao_Nil_iff: "secao b = [] \<longleftrightarrow> (\<forall>p\<in>set b. strip p = [])"
proof -
  have "\<forall>x\<in>set (map strip (filter (\<lambda>p. strip p \<noteq> []) b)). x \<noteq> []" by auto
  then have "secao b = [] \<longleftrightarrow> map strip (filter (\<lambda>p. strip p \<noteq> []) b) = []"
    unfolding secao_def by (rule join_Nil_iff)
  also have "\<dots> \<longleftrightarrow> (\<forall>p\<in>set b. strip p = [])"
    by (auto simp add: filter_empty_conv)
  finally show ?thesis .
qed

lemma secao_single: "secao [p] = strip p"
  by (simp add: secao_def)

lemma secao_Nil: "secao [] = []"
  by (simp add: secao_def)

lemma secao_reflexao:
  "secao (py_slice (Some (- 3)) (Some (- 2)) ps) =
     (if 3 \<le> length ps then strip (ps ! (length ps - 3)) else [])"
  by (simp add: py_slice_reflexao secao_single secao_Nil)

lemma secao_oracao:
  "secao (py_slice (Some (- 1)) None ps) = (if 1 \<le> length ps then strip (last ps) else [])"
  by (cases ps) (simp_all add: py_slice_oracao secao_single secao_Nil)

section \<open>Extraction\<close>

lemma extrair_Some_iff: "extrair_info_santo sp \<noteq> None \<longleftrightarrow> elementos_presentes sp"
  by (auto simp add: extrair_info_santo_def elementos_presentes_def split: option.splits)

lemma extrair_secoes:
  assumes "extrair_info_santo sp = Some r" and "wg_text sp = Some ps"
  shows "historia r = secao (take (length ps - 4) ps)"
    and "reflexao r = (if 3 \<le> length ps then strip (ps ! (length ps - 3)) else [])"
    and "oracao r = (if 1 \<le> length ps then strip (last ps) else [])"
  using assms
  by (auto simp add: extrair_info_santo_def py_slice_historia secao_reflexao secao_oracao
      simp del: One_nat_def split: option.splits)

text \<open>
  C1, as stated, fails: a page of three paragraphs whose first paragraph is empty has an
  empty reflection although it has no fewer than three paragraphs.
\<close>

theorem C1_reflexao_vazia_com_tres_paragrafos:
  "extrair_info_santo
       \<lparr> feature__name = Some ''Santa Rita'', wg_text = Some ['''', ''b'', ''c''],
         feature = Some None, saints_list = None \<rparr>
     = Some \<lparr> nome = ''Santa Rita'', imagem = None, historia = [], reflexao = [],
              oracao = ''c'' \<rparr> \<and>
   \<not> length ['''', ''b'', ''c''] < 3"
  by (simp add: extrair_info_santo_def py_slice_def secao_def strip_def isspace_def)

text \<open>
  C1, amended. On a page that has the elements extraction needs and \<open>N\<close> paragraphs,
  extraction produces a record, whatever \<open>N\<close> is. Its story is the section built from
  the first \<open>max (N - 4) 0\<close> paragraphs (each stripped, the blank ones skipped). Its
  reflection is the stripped paragraph at position \<open>N - 3\<close> when \<open>3 \<le> N\<close> and empty
  otherwise, so it is empty if and only if \<open>N < 3\<close> or that paragraph is blank. Its
  prayer is the stripped last paragraph when \<open>1 \<le> N\<close> and empty otherwise, so it is
  empty if and only if \<open>N = 0\<close> or the last paragraph is blank.
\<close>

theorem C1_extracao_posicional:
  assumes "elementos_presentes sp" and "wg_text sp = Some ps"
  shows "\<exists>r. extrair_info_santo sp = Some r \<and>
           historia r = secao (take (nat (max (int (length ps) - 4) 0)) ps) \<and>
           reflexao r = (if 3 \<le> length ps then strip (ps ! (length ps - 3)) else []) \<and>
           oracao r = (if 1 \<le> length ps then strip (last ps) else []) \<and>
           (reflexao r = [] \<longleftrightarrow> length ps < 3 \<or> strip (ps ! (length ps - 3)) = []) \<and>
           (oracao r = [] \<longleftrightarrow> length ps = 0 \<or> strip (last ps) = [])"
proof -
  from assms obtain r where r: "extrair_info_santo sp = Some r"
    using extrair_Some_iff [of sp] by auto
  have tk: "nat (max (int (length ps) - 4) 0) = length ps - 4" by arith
  note s = extrair_secoes [OF r assms(2)]
  have "reflexao r = [] \<longleftrightarrow> length ps < 3 \<or> strip (ps ! (length ps - 3)) = []"
    unfolding s(2) by auto
  moreover have "oracao r = [] \<longleftrightarrow> length ps = 0 \<or> strip (last ps) = []"
    unfolding s(3) by (cases ps) auto
  ultimately show ?thesis using r s unfolding tk by blast
qed

theorem C1_extracao_posicional_witness:
  "elementos_presentes \<lparr> feature__name = Some ''Santa Rita'',
            wg_text = Some ['' p1 '', ''p2'', '' '', ''p4'', ''p5'', ''p6''],
            feature = Some None, saints_list = None \<rparr> \<and>
   (\<exists>r. extrair_info_santo \<lparr> feature__name = Some ''Santa Rita'',
            wg_text = Some ['' p1 '', ''p2'', '' '', ''p4'', ''p5'', ''p6''],
            feature = Some None, saints_list = None \<rparr> = Some r \<and>
        historia r = ''p1'' @ [CHR 0x0A, CHR 0x0A] @ ''p2'' \<and> reflexao r = ''p4'' \<and> oracao r = ''p6'')"
  using C1_extracao_posicional [of "\<lparr> feature__name = Some ''Santa Rita'',
            wg_text = Some ['' p1 '', ''p2'', '' '', ''p4'', ''p5'', ''p6''],
            feature = Some None, saints_list = None \<rparr>" "['' p1 '', ''p2'', '' '', ''p4'', ''p5'', ''p6'']"]
  by (auto simp add: elementos_presentes_def secao_def strip_def isspace_def)

section \<open>Cache keys depend on the date\<close>




















section \<open>Fetching: traces, cache and memo table\<close>

lemma buscar_url_efeitos:
  assumes "buscar_url amb st url = (r, st1)"
  shows "chamadas st1 = chamadas st @ [url]" and "cache st1 = cache st"
    and "\<exists>ps. pedidos st1 = pedidos st @ ps"
  using assms
  by (auto simp add: buscar_url_def Let_def split: option.splits sum.splits)

lemma buscar_url_falha:
  assumes "map_of (memo st) url = None" and "sessao_get amb url = Inl e"
  shows "buscar_url amb st url =
           (Inl e, st\<lparr>chamadas := chamadas st @ [url], pedidos := pedidos st @ [url]\<rparr>)"
  using assms by (simp add: buscar_url_def Let_def)

lemma memo_coerente_map_of:
  "memo_coerente amb st \<Longrightarrow> map_of (memo st) url = Some b \<Longrightarrow> sessao_get amb url = Inr b"
  by (auto simp add: memo_coerente_def dest: map_of_SomeD)

lemma buscar_url_coerente:
  assumes "memo_coerente amb st" and "buscar_url amb st url = (r, st1)"
  shows "r = sessao_get amb url" and "memo_coerente amb st1"
proof -
  show "r = sessao_get amb url"
    using assms memo_coerente_map_of [OF assms(1), of url]
    by (auto simp add: buscar_url_def Let_def split: option.splits sum.splits)
  show "memo_coerente amb st1"
  proof (cases "map_of (memo st) url")
    case None
    show ?thesis
    proof (cases "sessao_get amb url")
      case (Inl e)
      with None assms show ?thesis
        by (auto simp add: buscar_url_def Let_def memo_coerente_def)
    next
      case (Inr b)
      with None assms(2)
      have "set (memo st1) \<subseteq> insert (url, b) (set (memo st))"
        using set_take_subset [of 128 "(url, b) # memo st"]
        by (auto simp add: buscar_url_def Let_def)
      with Inr assms(1) show ?thesis by (auto simp add: memo_coerente_def)
    qed
  next
    case (Some b)
    with assms(2) have "set (memo st1) \<subseteq> insert (url, b) (set (memo st))"
      by (auto simp add: buscar_url_def Let_def)
    moreover from Some have "(url, b) \<in> set (memo st)" by (rule map_of_SomeD)
    ultimately show ?thesis using assms(1) by (auto simp add: memo_coerente_def)
  qed
qed

lemma buscar_dados_santo_efeitos:
  assumes "buscar_dados_santo amb st url = (r, st1)"
  shows "chamadas st1 = chamadas st @ [url]" and "cache st1 = cache st"
proof -
  obtain x st' where b: "buscar_url amb st url = (x, st')" by (cases "buscar_url amb st url")
  with assms have "st1 = st'" by (auto simp add: buscar_dados_santo_def split: sum.splits)
  with buscar_url_efeitos [OF b]
  show "chamadas st1 = chamadas st @ [url]" and "cache st1 = cache st" by simp_all
qed

lemma buscar_dados_santo_coerente:
  assumes "memo_coerente amb st" and "buscar_dados_santo amb st url = (r, st1)"
  shows "r = santo_de amb url" and "memo_coerente amb st1"
proof -
  obtain x st' where b: "buscar_url amb st url = (x, st')" by (cases "buscar_url amb st url")
  note c = buscar_url_coerente [OF assms(1) b]
  from assms(2) b c(1) show "r = santo_de amb url"
    by (auto simp add: buscar_dados_santo_def santo_de_def split: sum.splits)
  from assms(2) b have "st1 = st'" by (auto simp add: buscar_dados_santo_def split: sum.splits)
  with c(2) show "memo_coerente amb st1" by simp
qed

lemma executor_map_efeitos:
  "executor_map amb st urls = (rs, st1) \<Longrightarrow>
     length rs = length urls \<and> chamadas st1 = chamadas st @ urls \<and> cache st1 = cache st"
proof (induction urls arbitrary: st rs st1)
  case Nil
  then show ?case by simp
next
  case (Cons u us)
  obtain r sta where a: "buscar_dados_santo amb st u = (r, sta)"
    by (cases "buscar_dados_santo amb st u")
  obtain rs' stb where b: "executor_map amb sta us = (rs', stb)"
    by (cases "executor_map amb sta us")
  from Cons.prems a b have eq: "rs = r # rs'" "st1 = stb" by simp_all
  from Cons.IH [OF b] buscar_dados_santo_efeitos [OF a] eq show ?case by simp
qed

lemma executor_map_coerente:
  "memo_coerente amb st \<Longrightarrow> executor_map amb st urls = (rs, st1) \<Longrightarrow>
     rs = map (santo_de amb) urls \<and> memo_coerente amb st1"
proof (induction urls arbitrary: st rs st1)
  case Nil
  then show ?case by simp
next
  case (Cons u us)
  obtain r sta where a: "buscar_dados_santo amb st u = (r, sta)"
    by (cases "buscar_dados_santo amb st u")
  obtain rs' stb where b: "executor_map amb sta us = (rs', stb)"
    by (cases "executor_map amb sta us")
  from Cons.prems(2) a b have eq: "rs = r # rs'" "st1 = stb" by simp_all
  note c = buscar_dados_santo_coerente [OF Cons.prems(1) a]
  from Cons.IH [OF c(2) b] c(1) eq show ?case by simp
qed

lemma filter_None_contagem:
  "length (filter_None rs) = length rs - length (filter (\<lambda>r. r = None) rs)"
  unfolding filter_None_def by (induction rs) (auto simp add: Suc_diff_le)

lemma filter_None_map:
  "filter_None (map f urls) = map f (filter (\<lambda>u. f u \<noteq> None) urls)"
  unfolding filter_None_def by (induction urls) auto

section \<open>The routes\<close>

lemma verdadeiro_iff: "verdadeiro d \<longleftrightarrow> (\<exists>v. d = Some v \<and> v \<noteq> [])"
  by (cases d rule: verdadeiro.cases) simp_all

lemma inicio_acerto:
  assumes "cache_get (time_now amb) (cache st) (criar_chave_cache amb [PStr ''inicio''] []) = Some v"
    and "v \<noteq> []"
  shows "inicio amb st = (jsonify (Resultados v), st)"
  using assms by (simp add: inicio_def Let_def verdadeiro_iff)

lemma data_acerto:
  assumes "cache_get (time_now amb) (cache st)
             (criar_chave_cache amb [PStr ''data'', PInt (int dia), PInt (int mes)] []) = Some v"
    and "v \<noteq> []"
  shows "data amb st dia mes = (jsonify (Resultados v), st)"
  using assms by (simp add: data_def Let_def verdadeiro_iff)

lemma inicio_falta:
  assumes "\<not> verdadeiro (cache_get (time_now amb) (cache st)
                 (criar_chave_cache amb [PStr ''inicio''] []))"
  shows "inicio amb st =
           (case inicio_try amb st (criar_chave_cache amb [PStr ''inicio''] []) of
              (Inl e, st1) \<Rightarrow> (erro_500 e, st1)
            | (Inr r, st1) \<Rightarrow> (r, st1))"
  using assms by (simp add: inicio_def Let_def)

lemma data_falta:
  assumes "\<not> verdadeiro (cache_get (time_now amb) (cache st)
                 (criar_chave_cache amb [PStr ''data'', PInt (int dia), PInt (int mes)] []))"
  shows "data amb st dia mes =
           (case data_try amb st dia mes
                   (criar_chave_cache amb [PStr ''data'', PInt (int dia), PInt (int mes)] []) of
              (Inl e, st1) \<Rightarrow> (erro_500 e, st1)
            | (Inr r, st1) \<Rightarrow> (r, st1))"
  using assms by (simp add: data_def Let_def)

lemma inicio_try_falha:
  assumes "buscar_url amb st url_santo_do_dia = (Inl e, st1)"
  shows "inicio_try amb st k = (Inl e, st1)"
  using assms by (simp add: inicio_try_def)

lemma data_try_falha:
  assumes "buscar_url amb st (url_data dia mes) = (Inl e, st1)"
  shows "data_try amb st dia mes k = (Inl e, st1)"
  using assms by (simp add: data_try_def)

lemma inicio_try_lista:
  assumes "buscar_url amb st url_santo_do_dia = (Inr html, st1)"
    and "saints_list (BeautifulSoup amb html) = Some urls"
    and "executor_map amb st1 urls = (rs, st2)"
  shows "inicio_try amb st k =
           (Inr (jsonify (Resultados (filter_None rs))),
            st2\<lparr>cache := cache_set (time_now amb) (cache st2) k (filter_None rs)\<rparr>)"
  using assms by (simp add: inicio_try_def Let_def)

lemma data_try_lista:
  assumes "buscar_url amb st (url_data dia mes) = (Inr html, st1)"
    and "saints_list (BeautifulSoup amb html) = Some urls"
    and "executor_map amb st1 urls = (rs, st2)"
  shows "data_try amb st dia mes k =
           (Inr (jsonify (Resultados (filter_None rs))),
            st2\<lparr>cache := cache_set (time_now amb) (cache st2) k (filter_None rs)\<rparr>)"
  using assms by (simp add: data_try_def Let_def)

lemma inicio_try_pagina_unica:
  assumes "buscar_url amb st url_santo_do_dia = (Inr html, st1)"
    and "saints_list (BeautifulSoup amb html) = None"
  shows "inicio_try amb st k =
           (Inr (jsonify (Resultados [extrair_info_santo (BeautifulSoup amb html)])),
            st1\<lparr>cache := cache_set (time_now amb) (cache st1) k
                             [extrair_info_santo (BeautifulSoup amb html)]\<rparr>)"
  using assms by (simp add: inicio_try_def Let_def filter_None_def)

lemma data_try_pagina_unica:
  assumes "buscar_url amb st (url_data dia mes) = (Inr html, st1)"
    and "saints_list (BeautifulSoup amb html) = None"
  shows "data_try amb st dia mes k =
           (Inr (jsonify (Resultados
                   (case extrair_info_santo (BeautifulSoup amb html) of
                      None \<Rightarrow> [] | Some info \<Rightarrow> [Some info]))),
            st1\<lparr>cache := cache_set (time_now amb) (cache st1) k
                   (case extrair_info_santo (BeautifulSoup amb html) of
                      None \<Rightarrow> [] | Some info \<Rightarrow> [Some info])\<rparr>)"
  using assms by (simp add: data_try_def Let_def split: option.splits)

lemma inicio_try_chamadas:
  "\<exists>xs. chamadas (snd (inicio_try amb st k)) = chamadas st @ url_santo_do_dia # xs"
proof -
  obtain r st1 where b: "buscar_url amb st url_santo_do_dia = (r, st1)"
    by (cases "buscar_url amb st url_santo_do_dia")
  note e = buscar_url_efeitos(1) [OF b]
  show ?thesis
  proof (cases r)
    case (Inl ex)
    with b e show ?thesis by (simp add: inicio_try_def)
  next
    case (Inr html)
    let ?urls = "case saints_list (BeautifulSoup amb html) of None \<Rightarrow> [] | Some hrefs \<Rightarrow> hrefs"
    obtain rs st2 where m: "executor_map amb st1 ?urls = (rs, st2)"
      by (cases "executor_map amb st1 ?urls")
    from executor_map_efeitos [OF m] e have "chamadas st2 = chamadas st @ url_santo_do_dia # ?urls"
      by simp
    with b Inr m show ?thesis by (simp add: inicio_try_def Let_def)
  qed
qed

lemma data_try_chamadas:
  "\<exists>xs. chamadas (snd (data_try amb st dia mes k)) = chamadas st @ url_data dia mes # xs"
proof -
  obtain r st1 where b: "buscar_url amb st (url_data dia mes) = (r, st1)"
    by (cases "buscar_url amb st (url_data dia mes)")
  note e = buscar_url_efeitos(1) [OF b]
  show ?thesis
  proof (cases r)
    case (Inl ex)
    with b e show ?thesis by (simp add: data_try_def)
  next
    case (Inr html)
    show ?thesis
    proof (cases "saints_list (BeautifulSoup amb html)")
      case None
      with b Inr e show ?thesis by (simp add: data_try_def Let_def split: option.splits)
    next
      case (Some urls)
      obtain rs st2 where m: "executor_map amb st1 urls = (rs, st2)"
        by (cases "executor_map amb st1 urls")
      from executor_map_efeitos [OF m] e have "chamadas st2 = chamadas st @ url_data dia mes # urls"
        by simp
      with b Inr Some m show ?thesis by (simp add: data_try_def Let_def)
    qed
  qed
qed

section \<open>Evaluating the concrete site\<close>

lemma str_nat_numeral:
  "str_nat (numeral k) = (if numeral k < (10::nat) then [digito (numeral k)]
     else str_nat (numeral k div 10) @ [digito (numeral k mod 10)])"
  by (rule str_nat.simps)

lemmas exemplo_simps =
  amb_exemplo_def estado_inicial_def estado_com_cache_def rede_exemplo_def
  pagina_filho_def pagina_indice_def pagina_sem_nome_def santa_rita_def
  criar_chave_cache_def string_chave_def strftime_def zfill_def str_int_def str_nat_numeral
  digito_def url_data_def url_santo_do_dia_def cache_get_def cache_set_def

lemmas rota_simps =
  inicio_def inicio_try_def data_def data_try_def buscar_url_def buscar_dados_santo_def
  filter_None_def jsonify_def erro_500_def Let_def
  extrair_info_santo_def py_slice_def secao_def strip_def isspace_def

section \<open>Cache hits and misses\<close>

text \<open>
  C5, as stated, fails: with the empty list stored, unexpired, under today's key, the
  default route requests the page of the day and the three child pages, and returns
  three records instead of the stored value.
\<close>

theorem C5_lista_vazia_guardada_busca_de_novo:
  "cache_get (time_now amb_exemplo) (cache (estado_com_cache []))
       (criar_chave_cache amb_exemplo [PStr ''inicio''] []) = Some [] \<and>
   pedidos (snd (inicio amb_exemplo (estado_com_cache [])))
     = [url_santo_do_dia, ''https://www.a12.com/a'', ''https://www.a12.com/b'', ''https://www.a12.com/c''] \<and>
   corpo (fst (inicio amb_exemplo (estado_com_cache [])))
     = Resultados [Some santa_rita, Some santa_rita, Some santa_rita]"
proof -
  have "cache_get (time_now amb_exemplo) (cache (estado_com_cache []))
       (criar_chave_cache amb_exemplo [PStr ''inicio''] []) = Some []"
    by (simp add: exemplo_simps)
  moreover have "pedidos (snd (inicio amb_exemplo (estado_com_cache [])))
     = [url_santo_do_dia, ''https://www.a12.com/a'', ''https://www.a12.com/b'', ''https://www.a12.com/c'']"
    by (simp add: exemplo_simps rota_simps)
  moreover have "corpo (fst (inicio amb_exemplo (estado_com_cache [])))
     = Resultados [Some santa_rita, Some santa_rita, Some santa_rita]"
    by (simp add: exemplo_simps rota_simps)
  ultimately show ?thesis by blast
qed

text \<open>
  C5, amended. For every request whose cache key has an unexpired entry holding a
  non-empty list, the route (the default one and the one for a day and a month alike)
  returns the stored value and leaves the state as it was: the traces of
  \<^verbatim>\<open>buscar_url\<close> calls and of upstream requests do not grow, so no fetch occurs.
\<close>

theorem C5_acerto_sem_busca:
  "(cache_get (time_now amb) (cache st) (criar_chave_cache amb [PStr ''inicio''] []) = Some v
      \<and> v \<noteq> []
      \<longrightarrow> inicio amb st = (jsonify (Resultados v), st)
          \<and> chamadas (snd (inicio amb st)) = chamadas st
          \<and> pedidos (snd (inicio amb st)) = pedidos st) \<and>
   (cache_get (time_now amb) (cache st)
        (criar_chave_cache amb [PStr ''data'', PInt (int dia), PInt (int mes)] []) = Some w
      \<and> w \<noteq> []
      \<longrightarrow> data amb st dia mes = (jsonify (Resultados w), st)
          \<and> chamadas (snd (data amb st dia mes)) = chamadas st
          \<and> pedidos (snd (data amb st dia mes)) = pedidos st)"
  by (simp add: inicio_acerto data_acerto)

theorem C5_acerto_sem_busca_witness:
  "inicio amb_exemplo (estado_com_cache [Some santa_rita])
     = (jsonify (Resultados [Some santa_rita]), estado_com_cache [Some santa_rita]) \<and>
   data amb_exemplo (estado_com_cache [Some santa_rita]) 22 5
     = (jsonify (Resultados [Some santa_rita]), estado_com_cache [Some santa_rita])"
  using C5_acerto_sem_busca [of amb_exemplo "estado_com_cache [Some santa_rita]"
      "[Some santa_rita]" 22 5 "[Some santa_rita]"]
  by (simp add: exemplo_simps)

text \<open>
  C10. On both routes, when the value stored, unexpired, under the request's key is the
  empty list, the route does not return it: it runs its \<^verbatim>\<open>try\<close> block, the whole
  pipeline, whose first step calls \<^verbatim>\<open>buscar_url\<close> on the route's page.
\<close>

theorem C10_lista_vazia_tratada_como_falta:
  "(cache_get (time_now amb) (cache st) (criar_chave_cache amb [PStr ''inicio''] []) = Some []
      \<longrightarrow> inicio amb st =
            (case inicio_try amb st (criar_chave_cache amb [PStr ''inicio''] []) of
               (Inl e, st1) \<Rightarrow> (erro_500 e, st1)
             | (Inr r, st1) \<Rightarrow> (r, st1))
          \<and> (\<exists>xs. chamadas (snd (inicio amb st)) = chamadas st @ url_santo_do_dia # xs)) \<and>
   (cache_get (time_now amb) (cache st)
        (criar_chave_cache amb [PStr ''data'', PInt (int dia), PInt (int mes)] []) = Some []
      \<longrightarrow> data amb st dia mes =
            (case data_try amb st dia mes
                    (criar_chave_cache amb [PStr ''data'', PInt (int dia), PInt (int mes)] []) of
               (Inl e, st1) \<Rightarrow> (erro_500 e, st1)
             | (Inr r, st1) \<Rightarrow> (r, st1))
          \<and> (\<exists>xs. chamadas (snd (data amb st dia mes)) = chamadas st @ url_data dia mes # xs))"
proof -
  have i: "\<exists>xs. chamadas (snd (case inicio_try amb st k of
               (Inl e, st1) \<Rightarrow> (erro_500 e, st1)
             | (Inr r, st1) \<Rightarrow> (r, st1))) = chamadas st @ url_santo_do_dia # xs" for k
    using inicio_try_chamadas [of amb st k]
    by (cases "inicio_try amb st k") (auto split: sum.splits)
  have d: "\<exists>xs. chamadas (snd (case data_try amb st dia mes k of
               (Inl e, st1) \<Rightarrow> (erro_500 e, st1)
             | (Inr r, st1) \<Rightarrow> (r, st1))) = chamadas st @ url_data dia mes # xs" for k
    using data_try_chamadas [of amb st dia mes k]
    by (cases "data_try amb st dia mes k") (auto split: sum.splits)
  show ?thesis
    using i d by (auto simp add: inicio_falta data_falta simp del: split_paired_Ex)
qed

theorem C10_lista_vazia_tratada_como_falta_witness:
  "cache_get (time_now amb_exemplo) (cache (estado_com_cache []))
       (criar_chave_cache amb_exemplo [PStr ''inicio''] []) = Some [] \<and>
   cache_get (time_now amb_exemplo) (cache (estado_com_cache []))
       (criar_chave_cache amb_exemplo [PStr ''data'', PInt 22, PInt 5] []) = Some [] \<and>
   (\<exists>xs. chamadas (snd (inicio amb_exemplo (estado_com_cache []))) = url_santo_do_dia # xs) \<and>
   (\<exists>xs. chamadas (snd (data amb_exemplo (estado_com_cache []) 22 5)) = url_data 22 5 # xs)"
proof -
  have 1: "cache_get (time_now amb_exemplo) (cache (estado_com_cache []))
       (criar_chave_cache amb_exemplo [PStr ''inicio''] []) = Some []"
    by (simp add: exemplo_simps)
  have 2: "cache_get (time_now amb_exemplo) (cache (estado_com_cache []))
       (criar_chave_cache amb_exemplo [PStr ''data'', PInt (int 22), PInt (int 5)] []) = Some []"
    by (simp add: exemplo_simps)
  have 3: "chamadas (estado_com_cache []) = []"
    by (simp add: estado_com_cache_def estado_inicial_def)
  from C10_lista_vazia_tratada_como_falta [of amb_exemplo "estado_com_cache []" 22 5] 1 2
  have "\<exists>xs. chamadas (snd (inicio amb_exemplo (estado_com_cache [])))
            = chamadas (estado_com_cache []) @ url_santo_do_dia # xs"
    and "\<exists>xs. chamadas (snd (data amb_exemplo (estado_com_cache []) 22 5))
            = chamadas (estado_com_cache []) @ url_data 22 5 # xs"
    by blast+
  with 1 2 show ?thesis unfolding 3 by simp
qed

section \<open>Failure of the top-level fetch\<close>

text \<open>
  C7. On both routes, when the lookup is not a hit and the fetch of the route's own page
  fails (the page is not memoised and the request raises, whatever the exception), the
  response is the single error response: the exception's message as \<^verbatim>\<open>erro\<close>, status
  500, no result list. The cache and the memo table are left as they were.
\<close>

theorem C7_falha_da_busca_principal:
  "(\<not> verdadeiro (cache_get (time_now amb) (cache st)
                     (criar_chave_cache amb [PStr ''inicio''] []))
      \<and> map_of (memo st) url_santo_do_dia = None
      \<and> sessao_get amb url_santo_do_dia = Inl e
      \<longrightarrow> fst (inicio amb st) = erro_500 e
          \<and> cache (snd (inicio amb st)) = cache st
          \<and> memo (snd (inicio amb st)) = memo st) \<and>
   (\<not> verdadeiro (cache_get (time_now amb) (cache st)
                     (criar_chave_cache amb [PStr ''data'', PInt (int dia), PInt (int mes)] []))
      \<and> map_of (memo st) (url_data dia mes) = None
      \<and> sessao_get amb (url_data dia mes) = Inl e
      \<longrightarrow> fst (data amb st dia mes) = erro_500 e
          \<and> cache (snd (data amb st dia mes)) = cache st
          \<and> memo (snd (data amb st dia mes)) = memo st) \<and>
   corpo (erro_500 e) = Erro (str_exc e) \<and> status (erro_500 e) = 500"
  by (simp add: inicio_falta data_falta inicio_try_falha data_try_falha buscar_url_falha
      erro_500_def jsonify_def)

theorem C7_falha_da_busca_principal_witness:
  "fst (inicio (amb_exemplo\<lparr>sessao_get := \<lambda>u. Inl (Timeout ''Read timed out'')\<rparr>) estado_inicial)
     = erro_500 (Timeout ''Read timed out'') \<and>
   cache (snd (inicio (amb_exemplo\<lparr>sessao_get := \<lambda>u. Inl (Timeout ''Read timed out'')\<rparr>)
                 estado_inicial)) = Map.empty \<and>
   fst (data (amb_exemplo\<lparr>sessao_get := \<lambda>u. Inl (Timeout ''Read timed out'')\<rparr>) estado_inicial 22 5)
     = erro_500 (Timeout ''Read timed out'') \<and>
   corpo (erro_500 (Timeout ''Read timed out'')) = Erro ''Read timed out'' \<and>
   status (erro_500 (Timeout ''Read timed out'')) = 500"
  using C7_falha_da_busca_principal
    [of "amb_exemplo\<lparr>sessao_get := \<lambda>u. Inl (Timeout ''Read timed out'')\<rparr>" estado_inicial
      "Timeout ''Read timed out''" 22 5]
  by (simp add: amb_exemplo_def estado_inicial_def cache_get_def)

section \<open>Fan-out over the child links\<close>

lemma data_lista:
  assumes "\<not> verdadeiro (cache_get (time_now amb) (cache st)
                 (criar_chave_cache amb [PStr ''data'', PInt (int dia), PInt (int mes)] []))"
    and "buscar_url amb st (url_data dia mes) = (Inr html, st1)"
    and "saints_list (BeautifulSoup amb html) = Some urls"
    and "executor_map amb st1 urls = (rs, st2)"
  shows "fst (data amb st dia mes) = jsonify (Resultados (filter_None rs))"
  by (simp add: data_falta [OF assms(1)] data_try_lista [OF assms(2,3,4)])

lemma inicio_lista:
  assumes "\<not> verdadeiro (cache_get (time_now amb) (cache st)
                 (criar_chave_cache amb [PStr ''inicio''] []))"
    and "buscar_url amb st url_santo_do_dia = (Inr html, st1)"
    and "saints_list (BeautifulSoup amb html) = Some urls"
    and "executor_map amb st1 urls = (rs, st2)"
  shows "fst (inicio amb st) = jsonify (Resultados (filter_None rs))"
  by (simp add: inicio_falta [OF assms(1)] inicio_try_lista [OF assms(2,3,4)])

lemma sobreviventes:
  assumes "memo_coerente amb st1" and "executor_map amb st1 urls = (rs, st2)"
  shows "filter_None rs = map (santo_de amb) (filter (\<lambda>u. santo_de amb u \<noteq> None) urls)"
    and "length (filter_None rs)
           = length urls - length (filter (\<lambda>u. santo_de amb u = None) urls)"
proof -
  from executor_map_coerente [OF assms] have rs: "rs = map (santo_de amb) urls" by simp
  show "filter_None rs = map (santo_de amb) (filter (\<lambda>u. santo_de amb u \<noteq> None) urls)"
    unfolding rs by (rule filter_None_map)
  have "length (filter (\<lambda>r. r = None) (map (santo_de amb) urls))
          = length (filter (\<lambda>u. santo_de amb u = None) urls)"
    by (induction urls) simp_all
  then show "length (filter_None rs)
           = length urls - length (filter (\<lambda>u. santo_de amb u = None) urls)"
    unfolding rs by (simp add: filter_None_contagem)
qed

text \<open>
  The same on the default route: on a list page its result is the list of the children's
  outcomes without the failures, in link order.
\<close>

lemma inicio_filhos_sobreviventes_em_ordem:
  assumes "\<not> verdadeiro (cache_get (time_now amb) (cache st)
                 (criar_chave_cache amb [PStr ''inicio''] []))"
    and "buscar_url amb st url_santo_do_dia = (Inr html, st1)"
    and "saints_list (BeautifulSoup amb html) = Some urls"
    and "memo_coerente amb st"
  shows "fst (inicio amb st)
           = jsonify (Resultados (map (santo_de amb)
                                    (filter (\<lambda>u. santo_de amb u \<noteq> None) urls)))"
proof -
  obtain rs st2 where m: "executor_map amb st1 urls = (rs, st2)"
    by (cases "executor_map amb st1 urls")
  from buscar_url_coerente(2) [OF assms(4,2)] have "memo_coerente amb st1" .
  from sobreviventes(1) [OF this m] inicio_lista [OF assms(1,2,3) m] show ?thesis by simp
qed

text \<open>
  C3. On the route for a day and a month, when the lookup is not a hit and the fetched
  page is a list page with \<open>k\<close> links: every link is processed and gives one outcome,
  the response is the successful response (status 200) carrying the outcomes without the
  failures, in the order of the links, so \<open>k - f\<close> records when \<open>f\<close> children failed;
  no failure of a child makes the route fail. When the memo table agrees with the
  network, the outcome of a link is what its page yields, and the records are those of
  the surviving links in document order.
\<close>

theorem C3_filhos_sobreviventes_em_ordem:
  assumes "\<not> verdadeiro (cache_get (time_now amb) (cache st)
                 (criar_chave_cache amb [PStr ''data'', PInt (int dia), PInt (int mes)] []))"
    and "buscar_url amb st (url_data dia mes) = (Inr html, st1)"
    and "saints_list (BeautifulSoup amb html) = Some urls"
  shows "\<exists>rs st2. executor_map amb st1 urls = (rs, st2) \<and> length rs = length urls \<and>
           fst (data amb st dia mes) = jsonify (Resultados (filter_None rs)) \<and>
           status (fst (data amb st dia mes)) = 200 \<and>
           length (filter_None rs) = length urls - length (filter (\<lambda>r. r = None) rs) \<and>
           (memo_coerente amb st \<longrightarrow>
              filter_None rs
                = map (santo_de amb) (filter (\<lambda>u. santo_de amb u \<noteq> None) urls) \<and>
              length (filter_None rs)
                = length urls - length (filter (\<lambda>u. santo_de amb u = None) urls))"
proof -
  obtain rs st2 where m: "executor_map amb st1 urls = (rs, st2)"
    by (cases "executor_map amb st1 urls")
  note r = data_lista [OF assms m]
  have "memo_coerente amb st1" if "memo_coerente amb st"
    using buscar_url_coerente(2) [OF that assms(2)] .
  then have "memo_coerente amb st \<longrightarrow>
              filter_None rs
                = map (santo_de amb) (filter (\<lambda>u. santo_de amb u \<noteq> None) urls) \<and>
              length (filter_None rs)
                = length urls - length (filter (\<lambda>u. santo_de amb u = None) urls)"
    using sobreviventes [OF _ m] by blast
  moreover have l: "length rs = length urls" using executor_map_efeitos [OF m] by simp
  moreover have "status (fst (data amb st dia mes)) = 200" by (simp add: r jsonify_def)
  moreover have "length (filter_None rs) = length urls - length (filter (\<lambda>r. r = None) rs)"
    using filter_None_contagem [of rs] l by simp
  ultimately show ?thesis using m r by blast
qed

theorem C3_filhos_sobreviventes_em_ordem_witness:
  "saints_list (pagina_indice [''https://www.a12.com/a'', ''https://www.a12.com/x'', ''https://www.a12.com/c'']) = Some [''https://www.a12.com/a'', ''https://www.a12.com/x'', ''https://www.a12.com/c''] \<and>
   map (santo_de amb_exemplo) [''https://www.a12.com/a'', ''https://www.a12.com/x'', ''https://www.a12.com/c''] = [Some santa_rita, None, Some santa_rita] \<and>
   fst (data amb_exemplo estado_inicial 22 5)
     = jsonify (Resultados [Some santa_rita, Some santa_rita])"
proof -
  let ?st1 = "snd (buscar_url amb_exemplo estado_inicial (url_data 22 5))"
  have miss: "\<not> verdadeiro (cache_get (time_now amb_exemplo) (cache estado_inicial)
       (criar_chave_cache amb_exemplo [PStr ''data'', PInt (int 22), PInt (int 5)] []))"
    by (simp add: estado_inicial_def cache_get_def)
  have top: "buscar_url amb_exemplo estado_inicial (url_data 22 5)
      = (Inr (pagina_indice [''https://www.a12.com/a'', ''https://www.a12.com/x'', ''https://www.a12.com/c'']), ?st1)"
    by (simp add: exemplo_simps buscar_url_def Let_def)
  have lista: "saints_list (BeautifulSoup amb_exemplo (pagina_indice [''https://www.a12.com/a'', ''https://www.a12.com/x'', ''https://www.a12.com/c'']))
      = Some [''https://www.a12.com/a'', ''https://www.a12.com/x'', ''https://www.a12.com/c'']"
    by (simp add: amb_exemplo_def pagina_indice_def)
  have coer: "memo_coerente amb_exemplo estado_inicial"
    by (simp add: memo_coerente_def estado_inicial_def)
  have filhos: "map (santo_de amb_exemplo) [''https://www.a12.com/a'', ''https://www.a12.com/x'', ''https://www.a12.com/c'']
      = [Some santa_rita, None, Some santa_rita]"
    by (simp add: santo_de_def exemplo_simps extrair_info_santo_def py_slice_def secao_def
        strip_def isspace_def)
  then have f: "map (santo_de amb_exemplo)
                  (filter (\<lambda>u. santo_de amb_exemplo u \<noteq> None) [''https://www.a12.com/a'', ''https://www.a12.com/x'', ''https://www.a12.com/c''])
      = [Some santa_rita, Some santa_rita]"
    by simp
  from C3_filhos_sobreviventes_em_ordem [OF miss top lista] coer
  have "fst (data amb_exemplo estado_inicial 22 5)
      = jsonify (Resultados (map (santo_de amb_exemplo)
                  (filter (\<lambda>u. santo_de amb_exemplo u \<noteq> None) [''https://www.a12.com/a'', ''https://www.a12.com/x'', ''https://www.a12.com/c''])))"
    by auto
  with f filhos show ?thesis by (simp add: pagina_indice_def)
qed

section \<open>Three children of six paragraphs\<close>

lemma seis_paragrafos:
  assumes "elementos_presentes sp" and "wg_text sp = Some ps" and "length ps = 6"
    and "\<forall>p\<in>set ps. strip p \<noteq> []"
  shows "\<exists>r. extrair_info_santo sp = Some r \<and>
           historia r = strip (ps ! 0) @ [CHR 0x0A, CHR 0x0A] @ strip (ps ! 1) \<and>
           reflexao r = strip (ps ! 3) \<and> oracao r = strip (ps ! 5)"
proof -
  from assms(1) obtain r where r: "extrair_info_santo sp = Some r"
    using extrair_Some_iff [of sp] by auto
  from assms(3) obtain a b c d e f where ps: "ps = [a, b, c, d, e, f]"
    by (auto simp add: length_Suc_conv eval_nat_numeral)
  note s = extrair_secoes [OF r assms(2)]
  from assms(4) have "strip a \<noteq> []" and "strip b \<noteq> []" by (simp_all add: ps)
  then have "secao (take (length ps - 4) ps) = strip a @ [CHR 0x0A, CHR 0x0A] @ strip b"
    by (simp add: ps secao_def)
  with r s show ?thesis by (simp add: ps)
qed

lemma santo_de_seis_paragrafos:
  assumes "sessao_get amb u = Inr h" and "elementos_presentes (BeautifulSoup amb h)"
    and "wg_text (BeautifulSoup amb h) = Some ps" and "length ps = 6"
    and "\<forall>p\<in>set ps. strip p \<noteq> []"
  shows "\<exists>r. santo_de amb u = Some r \<and>
           historia r = strip (ps ! 0) @ [CHR 0x0A, CHR 0x0A] @ strip (ps ! 1) \<and>
           reflexao r = strip (ps ! 3) \<and> oracao r = strip (ps ! 5)"
  using seis_paragrafos [OF assms(2-5)] assms(1) by (simp add: santo_de_def)

text \<open>
  C2, as stated, fails: on the example site the page of the day lists three links, each
  child page has the six non-empty paragraphs \<open>p1\<close> to \<open>p6\<close>, and each of the three
  records has the fourth paragraph as its reflection, not the third.
\<close>

theorem C2_reflexao_e_o_quarto_paragrafo:
  "sessao_get amb_exemplo url_santo_do_dia = Inr (pagina_indice [''https://www.a12.com/a'', ''https://www.a12.com/b'', ''https://www.a12.com/c'']) \<and>
   map (sessao_get amb_exemplo) [''https://www.a12.com/a'', ''https://www.a12.com/b'', ''https://www.a12.com/c'']
     = [Inr pagina_filho, Inr pagina_filho, Inr pagina_filho] \<and>
   wg_text pagina_filho = Some [''p1'', ''p2 '', ''p3'', ''p4'', ''p5'', ''p6''] \<and>
   corpo (fst (inicio amb_exemplo estado_inicial))
     = Resultados [Some santa_rita, Some santa_rita, Some santa_rita] \<and>
   reflexao santa_rita = ''p4'' \<and> reflexao santa_rita \<noteq> ''p3''"
proof -
  have "sessao_get amb_exemplo url_santo_do_dia = Inr (pagina_indice [''https://www.a12.com/a'', ''https://www.a12.com/b'', ''https://www.a12.com/c''])"
    by (simp add: exemplo_simps)
  moreover have "map (sessao_get amb_exemplo) [''https://www.a12.com/a'', ''https://www.a12.com/b'', ''https://www.a12.com/c'']
     = [Inr pagina_filho, Inr pagina_filho, Inr pagina_filho]"
    by (simp add: amb_exemplo_def rede_exemplo_def url_data_def url_santo_do_dia_def)
  moreover have "wg_text pagina_filho = Some [''p1'', ''p2 '', ''p3'', ''p4'', ''p5'', ''p6'']"
    by (simp add: pagina_filho_def)
  moreover have "corpo (fst (inicio amb_exemplo estado_inicial))
     = Resultados [Some santa_rita, Some santa_rita, Some santa_rita]"
    by (simp add: exemplo_simps rota_simps)
  moreover have "reflexao santa_rita = ''p4'' \<and> reflexao santa_rita \<noteq> ''p3''"
    by (simp add: santa_rita_def)
  ultimately show ?thesis by blast
qed

text \<open>
  C2, amended. On the default route, when the lookup is not a hit, the memo table agrees
  with the network, the page of the day is fetched and lists three child links, and each
  child page has the elements extraction needs and exactly six non-blank paragraphs: the
  response carries exactly three records, in link order, and each record has as story
  the stripped paragraphs 1 and 2 joined with a blank line, as reflection the stripped
  paragraph 4 and as prayer the stripped paragraph 6 (positions 0, 1, 3 and 5 from zero).
\<close>

theorem C2_tres_filhos_de_seis_paragrafos:
  assumes "\<not> verdadeiro (cache_get (time_now amb) (cache st)
                 (criar_chave_cache amb [PStr ''inicio''] []))"
    and "memo_coerente amb st"
    and "sessao_get amb url_santo_do_dia = Inr html"
    and "saints_list (BeautifulSoup amb html) = Some urls"
    and "length urls = 3"
    and "list_all2 (\<lambda>u ps. \<exists>h. sessao_get amb u = Inr h \<and>
                    elementos_presentes (BeautifulSoup amb h) \<and>
                    wg_text (BeautifulSoup amb h) = Some ps \<and> length ps = 6 \<and>
                    (\<forall>p\<in>set ps. strip p \<noteq> [])) urls pss"
  shows "\<exists>rs. corpo (fst (inicio amb st)) = Resultados (map Some rs) \<and>
           status (fst (inicio amb st)) = 200 \<and> length rs = 3 \<and>
           list_all2 (\<lambda>r ps. historia r = strip (ps ! 0) @ [CHR 0x0A, CHR 0x0A] @ strip (ps ! 1) \<and>
                              reflexao r = strip (ps ! 3) \<and> oracao r = strip (ps ! 5)) rs pss"
proof -
  let ?Q = "\<lambda>r ps. historia r = strip (ps ! 0) @ [CHR 0x0A, CHR 0x0A] @ strip (ps ! 1) \<and>
                    reflexao r = strip (ps ! 3) \<and> oracao r = strip (ps ! 5)"
  let ?rs = "map (\<lambda>u. the (santo_de amb u)) urls"
  obtain x st1 where b: "buscar_url amb st url_santo_do_dia = (x, st1)"
    by (cases "buscar_url amb st url_santo_do_dia")
  from buscar_url_coerente(1) [OF assms(2) b] assms(3)
  have top: "buscar_url amb st url_santo_do_dia = (Inr html, st1)" using b by simp
  have each: "\<exists>r. santo_de amb u = Some r \<and> ?Q r ps"
    if "\<exists>h. sessao_get amb u = Inr h \<and> elementos_presentes (BeautifulSoup amb h) \<and>
            wg_text (BeautifulSoup amb h) = Some ps \<and> length ps = 6 \<and>
            (\<forall>p\<in>set ps. strip p \<noteq> [])" for u ps
  proof -
    from that obtain h where "sessao_get amb u = Inr h"
      and "elementos_presentes (BeautifulSoup amb h)"
      and "wg_text (BeautifulSoup amb h) = Some ps" and "length ps = 6"
      and "\<forall>p\<in>set ps. strip p \<noteq> []"
      by blast
    then show ?thesis by (rule santo_de_seis_paragrafos)
  qed
  have all2: "list_all2 (\<lambda>u ps. \<exists>r. santo_de amb u = Some r \<and> ?Q r ps) urls pss"
    by (rule list_all2_mono [OF assms(6)]) (rule each)
  have "list_all2 (\<lambda>u ps. ?Q (the (santo_de amb u)) ps) urls pss"
    by (rule list_all2_mono [OF all2]) (erule exE, simp)
  then have q: "list_all2 ?Q ?rs pss"
    by (simp only: list_all2_map1)
  have nn: "santo_de amb u \<noteq> None" if "u \<in> set urls" for u
  proof -
    from that obtain i where i: "i < length urls" and u: "urls ! i = u"
      by (auto simp add: in_set_conv_nth)
    from list_all2_nthD [OF all2 i] u show ?thesis by auto
  qed
  then have keep: "filter (\<lambda>u. santo_de amb u \<noteq> None) urls = urls"
    by (simp add: filter_True)
  have some: "map (santo_de amb) urls = map Some ?rs"
    unfolding map_map by (rule map_cong [OF refl]) (use nn in auto)
  have r: "fst (inicio amb st) = jsonify (Resultados (map Some ?rs))"
    using inicio_filhos_sobreviventes_em_ordem [OF assms(1) top assms(4,2)]
    by (simp only: keep some)
  have "corpo (fst (inicio amb st)) = Resultados (map Some ?rs)"
    and "status (fst (inicio amb st)) = 200"
    unfolding r by (simp_all add: jsonify_def)
  moreover have "length ?rs = 3" using assms(5) by simp
  ultimately show ?thesis using q by blast
qed

theorem C2_tres_filhos_de_seis_paragrafos_witness:
  "\<exists>rs. corpo (fst (inicio amb_exemplo estado_inicial)) = Resultados (map Some rs) \<and>
         length rs = 3 \<and>
         list_all2 (\<lambda>r ps. historia r = ''p1'' @ [CHR 0x0A, CHR 0x0A] @ ''p2'' \<and>
                            reflexao r = ''p4'' \<and> oracao r = ''p6'') rs
           (replicate 3 [''p1'', ''p2 '', ''p3'', ''p4'', ''p5'', ''p6''])"
proof -
  let ?ps = "[''p1'', ''p2 '', ''p3'', ''p4'', ''p5'', ''p6'']"
  have miss: "\<not> verdadeiro (cache_get (time_now amb_exemplo) (cache estado_inicial)
       (criar_chave_cache amb_exemplo [PStr ''inicio''] []))"
    by (simp add: estado_inicial_def cache_get_def)
  have coer: "memo_coerente amb_exemplo estado_inicial"
    by (simp add: memo_coerente_def estado_inicial_def)
  have top: "sessao_get amb_exemplo url_santo_do_dia = Inr (pagina_indice [''https://www.a12.com/a'', ''https://www.a12.com/b'', ''https://www.a12.com/c''])"
    by (simp add: exemplo_simps)
  have lista: "saints_list (BeautifulSoup amb_exemplo (pagina_indice [''https://www.a12.com/a'', ''https://www.a12.com/b'', ''https://www.a12.com/c'']))
      = Some [''https://www.a12.com/a'', ''https://www.a12.com/b'', ''https://www.a12.com/c'']"
    by (simp add: amb_exemplo_def pagina_indice_def)
  have filho: "sessao_get amb_exemplo u = Inr pagina_filho \<and>
      elementos_presentes (BeautifulSoup amb_exemplo pagina_filho) \<and>
      wg_text (BeautifulSoup amb_exemplo pagina_filho) = Some ?ps \<and> length ?ps = 6 \<and>
      (\<forall>p\<in>set ?ps. strip p \<noteq> [])" if "u \<in> set [''https://www.a12.com/a'', ''https://www.a12.com/b'', ''https://www.a12.com/c'']" for u
    using that
    by (auto simp add: amb_exemplo_def rede_exemplo_def url_data_def url_santo_do_dia_def
        pagina_filho_def elementos_presentes_def strip_def isspace_def)
  have filhos: "list_all2 (\<lambda>u ps. \<exists>h. sessao_get amb_exemplo u = Inr h \<and>
                    elementos_presentes (BeautifulSoup amb_exemplo h) \<and>
                    wg_text (BeautifulSoup amb_exemplo h) = Some ps \<and> length ps = 6 \<and>
                    (\<forall>p\<in>set ps. strip p \<noteq> [])) [''https://www.a12.com/a'', ''https://www.a12.com/b'', ''https://www.a12.com/c''] (replicate 3 ?ps)"
    using filho [of "''https://www.a12.com/a''"] filho [of "''https://www.a12.com/b''"] filho [of "''https://www.a12.com/c''"]
    by (simp add: numeral_3_eq_3)
  have s: "strip ''p1'' = ''p1''" "strip ''p2 '' = ''p2''" "strip ''p4'' = ''p4''"
    "strip ''p6'' = ''p6''"
    by (simp_all add: strip_def isspace_def)
  have tres: "length [''https://www.a12.com/a'', ''https://www.a12.com/b'', ''https://www.a12.com/c''] = 3" by simp
  from C2_tres_filhos_de_seis_paragrafos [OF miss coer top lista tres filhos]
  obtain rs where c: "corpo (fst (inicio amb_exemplo estado_inicial)) = Resultados (map Some rs)"
    and l: "length rs = 3"
    and q: "list_all2 (\<lambda>r ps. historia r = strip (ps ! 0) @ [CHR 0x0A, CHR 0x0A] @ strip (ps ! 1) \<and>
                              reflexao r = strip (ps ! 3) \<and> oracao r = strip (ps ! 5)) rs
           (replicate 3 ?ps)"
    by blast
  from l obtain r1 r2 r3 where rs: "rs = [r1, r2, r3]"
    by (auto simp add: length_Suc_conv numeral_3_eq_3)
  from q have "list_all2 (\<lambda>r ps. historia r = ''p1'' @ [CHR 0x0A, CHR 0x0A] @ ''p2'' \<and>
                            reflexao r = ''p4'' \<and> oracao r = ''p6'') rs (replicate 3 ?ps)"
    unfolding rs by (simp add: numeral_3_eq_3 s)
  with c l show ?thesis by blast
qed

section \<open>A single page whose extraction fails\<close>

text \<open>
  On the route for a day and a month, a fetched page without list container whose
  extraction fails gives the empty list, with the successful status.
\<close>

lemma data_pagina_unica_sem_santo:
  assumes "\<not> verdadeiro (cache_get (time_now amb) (cache st)
                 (criar_chave_cache amb [PStr ''data'', PInt (int dia), PInt (int mes)] []))"
    and "buscar_url amb st (url_data dia mes) = (Inr html, st1)"
    and "saints_list (BeautifulSoup amb html) = None"
    and "extrair_info_santo (BeautifulSoup amb html) = None"
  shows "fst (data amb st dia mes) = jsonify (Resultados [])"
  by (simp add: data_falta [OF assms(1)] data_try_pagina_unica [OF assms(2,3)] assms(4))

text \<open>
  On the default route the same page gives a list of one element, \<^verbatim>\<open>None\<close>, which is
  also what the route stores in the cache.
\<close>

lemma inicio_pagina_unica_sem_santo:
  assumes "\<not> verdadeiro (cache_get (time_now amb) (cache st)
                 (criar_chave_cache amb [PStr ''inicio''] []))"
    and "buscar_url amb st url_santo_do_dia = (Inr html, st1)"
    and "saints_list (BeautifulSoup amb html) = None"
    and "extrair_info_santo (BeautifulSoup amb html) = None"
  shows "fst (inicio amb st) = jsonify (Resultados [None])"
    and "cache_get (time_now amb) (cache (snd (inicio amb st)))
           (criar_chave_cache amb [PStr ''inicio''] []) = Some [None]"
  by (simp_all add: inicio_falta [OF assms(1)] inicio_try_pagina_unica [OF assms(2,3)] assms(4)
      cache_get_def cache_set_def)

text \<open>
  C6 is not what the default route does. The page served for every URL has no list
  container and no name element, so its extraction fails. The route for a day and a
  month answers with the empty list; the default route answers, with status 200, a list
  that holds one \<^verbatim>\<open>None\<close>.
\<close>

theorem C6_inicio_devolve_lista_com_None:
  "saints_list pagina_sem_nome = None \<and> extrair_info_santo pagina_sem_nome = None \<and>
   fst (data (amb_exemplo\<lparr>sessao_get := \<lambda>u. Inr pagina_sem_nome\<rparr>) estado_inicial 1 1)
     = jsonify (Resultados []) \<and>
   fst (inicio (amb_exemplo\<lparr>sessao_get := \<lambda>u. Inr pagina_sem_nome\<rparr>) estado_inicial)
     = jsonify (Resultados [None]) \<and>
   status (jsonify (Resultados [None])) = 200"
proof -
  let ?amb = "amb_exemplo\<lparr>sessao_get := \<lambda>u. Inr pagina_sem_nome\<rparr>"
  have l: "saints_list (BeautifulSoup ?amb pagina_sem_nome) = None"
    and x: "extrair_info_santo (BeautifulSoup ?amb pagina_sem_nome) = None"
    by (simp_all add: amb_exemplo_def pagina_sem_nome_def extrair_info_santo_def)
  have m1: "\<not> verdadeiro (cache_get (time_now ?amb) (cache estado_inicial)
                 (criar_chave_cache ?amb [PStr ''inicio''] []))"
    and m2: "\<not> verdadeiro (cache_get (time_now ?amb) (cache estado_inicial)
                 (criar_chave_cache ?amb [PStr ''data'', PInt (int 1), PInt (int 1)] []))"
    by (simp_all add: estado_inicial_def cache_get_def)
  have b1: "buscar_url ?amb estado_inicial url_santo_do_dia
      = (Inr pagina_sem_nome, snd (buscar_url ?amb estado_inicial url_santo_do_dia))"
    and b2: "buscar_url ?amb estado_inicial (url_data 1 1)
      = (Inr pagina_sem_nome, snd (buscar_url ?amb estado_inicial (url_data 1 1)))"
    by (simp_all add: buscar_url_def Let_def estado_inicial_def amb_exemplo_def)
  from l x have "saints_list pagina_sem_nome = None" "extrair_info_santo pagina_sem_nome = None"
    by (simp_all add: amb_exemplo_def)
  moreover note data_pagina_unica_sem_santo [OF m2 b2 l x]
    inicio_pagina_unica_sem_santo(1) [OF m1 b1 l x]
  moreover have "status (jsonify (Resultados [None])) = 200" by (simp add: jsonify_def)
  ultimately show ?thesis by simp
qed

section \<open>The cache-status header\<close>

lemma rotas_nunca_publicas:
  "cache_control_public (fst (inicio amb st)) = False"
  "cache_control_public (fst (data amb st dia mes)) = False"
  "cache_control_public (fst (limpar_cache st)) = False"
proof -
  show "cache_control_public (fst (inicio amb st)) = False"
    by (cases "inicio_try amb st (criar_chave_cache amb [PStr ''inicio''] [])")
      (auto simp add: inicio_def inicio_try_def Let_def jsonify_def erro_500_def
        split: prod.splits sum.splits)
  show "cache_control_public (fst (data amb st dia mes)) = False"
    by (cases "data_try amb st dia mes
                 (criar_chave_cache amb [PStr ''data'', PInt (int dia), PInt (int mes)] [])")
      (auto simp add: data_def data_try_def Let_def jsonify_def erro_500_def
        split: prod.splits sum.splits option.splits)
  show "cache_control_public (fst (limpar_cache st)) = False"
    by (simp add: limpar_cache_def jsonify_def)
qed

text \<open>Whatever the lookup did, the header says \<^verbatim>\<open>MISS\<close>.\<close>

lemma cabecalho_sempre_MISS:
  "headers (fst (servir (inicio amb) st)) ''X-Status-Cache'' = Some ''MISS''"
  "headers (fst (servir (\<lambda>s. data amb s dia mes) st)) ''X-Status-Cache'' = Some ''MISS''"
  using rotas_nunca_publicas(1) [of amb st] rotas_nunca_publicas(2) [of amb st dia mes]
  by (auto simp add: servir_def apos_requisicao_def split: prod.splits)


section \<open>The daily job attempts both entries\<close>



text \<open>
  The keys the job stores under are the keys the two routes look up: the name given for
  the second URL, \<^verbatim>\<open>data_<day>_<month>\<close>, joins to the same string as the three arguments
  of the route.
\<close>

lemma contem_inicio: "contem agulha (agulha @ ys)"
proof (cases "agulha @ ys")
  case Nil
  then show ?thesis by simp
next
  case (Cons a list)
  have "prefix agulha (agulha @ ys)" by simp
  with Cons show ?thesis by simp
qed

lemma contem_meio: "contem agulha (xs @ agulha @ ys)"
  by (induction xs) (simp_all add: contem_inicio)

lemma chaves_do_job:
  "\<not> contem ''day'' url_santo_do_dia"
  "contem ''day'' (url_data d m)"
  "criar_chave_cache amb [PStr (''data_'' @ str_int (int d) @ ''_'' @ str_int (int m))] []
     = criar_chave_cache amb [PStr ''data'', PInt (int d), PInt (int m)] []"
proof -
  show "\<not> contem ''day'' url_santo_do_dia" by (simp add: url_santo_do_dia_def)
  have "url_data d m = (url_santo_do_dia @ ''?'') @ ''day'' @ (''='' @ str_int (int d)
           @ ''&month='' @ str_int (int m))"
    by (simp add: url_data_def)
  then show "contem ''day'' (url_data d m)" by (simp only: contem_meio)
  show "criar_chave_cache amb [PStr (''data_'' @ str_int (int d) @ ''_'' @ str_int (int m))] []
     = criar_chave_cache amb [PStr ''data'', PInt (int d), PInt (int m)] []"
    by (simp add: criar_chave_cache_def string_chave_def)
qed


text \<open>
  On the example site, with the request for the page of the day timing out: the job
  still requests the page of 22 May and its children, and stores its two surviving
  records under the key of the route for 22 May.
\<close>

lemma job_exemplo_primeira_falha:
  "chamadas (snd (limpar_e_atualizar_cache
       (amb_exemplo\<lparr>sessao_get := \<lambda>u. if u = url_santo_do_dia then Inl (Timeout ''Read timed out'')
                                        else rede_exemplo u\<rparr>) estado_inicial))
     = [url_santo_do_dia, url_data 22 5, ''https://www.a12.com/a'', ''https://www.a12.com/x'', ''https://www.a12.com/c'']"
  by (simp add: limpar_e_atualizar_cache_def pre_carregar_def cache_clear_def
      exemplo_simps rota_simps)

end
